theory Spec2Isabelle
  imports Complex_Main "HOL-Library.AList"
begin

section \<open>Data model\<close>

text \<open>
  The converter is a Python program. Its floats are modelled as reals, its dictionaries as
  association lists where the iteration order is used (the currency directory, the map of
  converted amounts) and as maps where only lookup is used (the rate table), and its
  exceptions as the left summand of a sum type.
\<close>

datatype conversion_error_type = xe_error | oer_error | unsupported | no_currs_data

text \<open>
  The exceptions that travel through the modelled code. \<open>ConfigFileError\<close> stands for
  the pair FileNotFoundError / JSONDecodeError raised by \<open>load_config\<close>, and
  \<open>RequestException\<close> for whatever the HTTP layer or the response parser raises.
\<close>

datatype exn =
    ConversionError conversion_error_type
  | ValueError
  | ConfigFileError
  | KeyError
  | ZeroDivisionError
  | UnboundLocalError
  | RequestException

record entry =
  symbol :: string
  name :: string

type_synonym currencies = "(string \<times> entry) list"
type_synonym rates = "string \<rightharpoonup> real"

text \<open>
  The request dictionary \<open>{'amount', 'in_currency', 'out_currency'}\<close>. The output
  currency is a string in a request handed to a converter and an optional string in the
  parameters handed to \<open>main\<close>.
\<close>

record 'o params =
  amount :: real
  in_currency :: string
  out_currency :: 'o

text \<open>
  What a cache file holds when it is opened: no file, text that is not JSON, JSON without a
  usable \<open>timestamp\<close>, or an envelope with a timestamp and possibly the payload key.
\<close>

datatype 'p cache_file = NoFile | NotJson | NoTimestamp | Envelope real "'p option"

record rates_response =
  resp_timestamp :: "real option"
  resp_rates :: "rates option"

record xe_response =
  xe_converted :: real
  xe_returned_currs :: "string \<times> string"

record oer_config =
  app_id :: string
  rates_expiration :: real

record config =
  converter :: string
  currencies_expiration :: real
  oer_config :: oer_config
  override_currencies :: "string list option"

datatype converter_name = XE | OER

text \<open>
  The outside world. Every reading of the clock and every remote request consumes one tick,
  and the answer it gets is the one the world holds for that tick, so a server may fail at
  one request and answer the next. \<open>calls\<close> is the log of the calls of the converters'
  \<open>convert\<close> method, newest first; no definition reads it. \<open>str_values\<close> is
  Python's \<open>str\<close> of a value of the currency directory.
\<close>

record world =
  tick :: nat
  clock :: "nat \<Rightarrow> real"
  currencies_server :: "nat \<Rightarrow> currencies option"
  rates_server :: "nat \<Rightarrow> rates_response option"
  xe_server :: "nat \<Rightarrow> string params \<Rightarrow> xe_response option"
  str_values :: "entry \<Rightarrow> string"
  config_json :: "config option"
  cache_currencies_json :: "currencies cache_file"
  cache_rates_json :: "rates cache_file"
  calls :: "(converter_name \<times> string params) list"

record converter_obj =
  conv_name :: converter_name
  currencies :: currencies
  rates :: "rates option"
  rates_exp :: real

section \<open>The outside world\<close>

definition advance :: "world \<Rightarrow> world" where
  "advance w = w\<lparr>tick := Suc (tick w)\<rparr>"

definition time_time :: "world \<Rightarrow> real \<times> world" where
  "time_time w = (clock w (tick w), advance w)"

section \<open>ConverterCommon\<close>

definition get_currencies :: "world \<Rightarrow> (exn + currencies) \<times> world" where
  "get_currencies w =
     (case currencies_server w (tick w) of
        None \<Rightarrow> (Inl RequestException, advance w)
      | Some response \<Rightarrow> (Inr response, advance w))"

definition save_currencies :: "currencies \<Rightarrow> world \<Rightarrow> world" where
  "save_currencies cs w =
     (case time_time w of
        (now, w1) \<Rightarrow> w1\<lparr>cache_currencies_json := Envelope now (Some cs)\<rparr>)"

text \<open>
  \<open>load_currencies\<close>: the first \<open>try\<close> reads the cache and sets \<open>missing\<close>, the
  second fetches. Reading \<open>cache['currencies']\<close> from an envelope without that key
  raises KeyError outside every handler.
\<close>

definition load_currencies :: "real \<Rightarrow> world \<Rightarrow> (exn + currencies) \<times> world" where
  "load_currencies curr_exp w =
     (let fetch = (\<lambda>missing cached w1.
            case get_currencies w1 of
              (Inl e, w2) \<Rightarrow>
                 if missing then (Inl (ConversionError no_currs_data), w2)
                 else (case cached of
                         None \<Rightarrow> (Inl KeyError, w2)
                       | Some cs \<Rightarrow> (Inr cs, w2))
            | (Inr cs, w2) \<Rightarrow> (Inr cs, save_currencies cs w2))
      in case cache_currencies_json w of
           NoFile \<Rightarrow> fetch True None w
         | NotJson \<Rightarrow> fetch True None w
         | NoTimestamp \<Rightarrow> fetch True None (snd (time_time w))
         | Envelope timestamp payload \<Rightarrow>
             (case time_time w of
                (now, w1) \<Rightarrow>
                  if now - timestamp > curr_exp then fetch False payload w1
                  else (case payload of
                          None \<Rightarrow> (Inl KeyError, w1)
                        | Some cs \<Rightarrow> (Inr cs, w1))))"

definition list_currencies :: "converter_obj \<Rightarrow> (string \<times> string \<times> string) list" where
  "list_currencies self = map (\<lambda>(code, curr). (code, symbol curr, name curr)) (currencies self)"

section \<open>ConverterXE\<close>

text \<open>
  \<open>get_response\<close> asks the remote page for one conversion and parses it; any failure in
  the request or in the parsing is an exception. The world answers with the parsed fields.
\<close>

definition get_response :: "string params \<Rightarrow> world \<Rightarrow> (exn + xe_response) \<times> world" where
  "get_response self_params w =
     (case xe_server w (tick w) self_params of
        None \<Rightarrow> (Inl RequestException, advance w)
      | Some response \<Rightarrow> (Inr response, advance w))"

text \<open>\<open>check_response\<close> returns False on a replaced currency and falls off its end (None) otherwise.\<close>

definition check_response :: "string params \<Rightarrow> xe_response \<Rightarrow> bool option" where
  "check_response self_params response =
     (if fst (xe_returned_currs response) \<noteq> in_currency self_params
         \<or> snd (xe_returned_currs response) \<noteq> out_currency self_params
      then Some False else None)"

definition convert_xe :: "string params \<Rightarrow> world \<Rightarrow> (exn + real) \<times> world" where
  "convert_xe params w =
     (let w0 = w\<lparr>calls := (XE, params) # calls w\<rparr> in
      case get_response params w0 of
        (Inl e, w1) \<Rightarrow> (Inl (ConversionError xe_error), w1)
      | (Inr response, w1) \<Rightarrow>
          if check_response params response \<noteq> Some False
          then (Inr (xe_converted response), w1)
          else (Inl (ConversionError unsupported), w1))"

section \<open>ConverterOER\<close>

text \<open>
  \<open>save_rates\<close> opens the file for writing, which empties it, before it reads the two
  keys of the response; the timestamp it stores is the one the response carries.
\<close>

definition save_rates :: "rates_response \<Rightarrow> world \<Rightarrow> (exn + unit) \<times> world" where
  "save_rates response w =
     (case resp_timestamp response of
        None \<Rightarrow> (Inl KeyError, w\<lparr>cache_rates_json := NotJson\<rparr>)
      | Some ts \<Rightarrow>
          (case resp_rates response of
             None \<Rightarrow> (Inl KeyError, w\<lparr>cache_rates_json := NotJson\<rparr>)
           | Some rs \<Rightarrow> (Inr (), w\<lparr>cache_rates_json := Envelope ts (Some rs)\<rparr>)))"

text \<open>
  \<open>load_rates\<close> assigns \<open>self.rates\<close>; the model returns the table and \<open>convert\<close>
  stores it. A failed request raises \<open>oer_error\<close> whatever the cache held.
\<close>

definition load_rates :: "real \<Rightarrow> world \<Rightarrow> (exn + rates) \<times> world" where
  "load_rates rates_expiry w =
     (let fetch = (\<lambda>w1.
            case rates_server w1 (tick w1) of
              None \<Rightarrow> (Inl (ConversionError oer_error), advance w1)
            | Some response \<Rightarrow>
                (case resp_rates response of
                   None \<Rightarrow> (Inl KeyError, advance w1)
                 | Some rs \<Rightarrow>
                     (case save_rates response (advance w1) of
                        (Inl e, w2) \<Rightarrow> (Inl e, w2)
                      | (Inr u, w2) \<Rightarrow> (Inr rs, w2))))
      in case cache_rates_json w of
           NoFile \<Rightarrow> fetch w
         | NotJson \<Rightarrow> fetch w
         | NoTimestamp \<Rightarrow> fetch (snd (time_time w))
         | Envelope timestamp payload \<Rightarrow>
             (case time_time w of
                (now, w1) \<Rightarrow>
                  if now - timestamp > rates_expiry then fetch w1
                  else (case payload of
                          None \<Rightarrow> (Inl KeyError, w1)
                        | Some rs \<Rightarrow> (Inr rs, w1))))"

text \<open>
  \<open>ConverterOER.convert\<close>. A missing key of the rate table is the KeyError that the
  method turns into \<open>unsupported\<close>; a rate of zero makes the float division raise
  ZeroDivisionError, which no handler catches.
\<close>

function convert_oer ::
  "converter_obj \<Rightarrow> string params \<Rightarrow> world \<Rightarrow> (exn + real) \<times> converter_obj \<times> world" where
  "convert_oer self params w =
     (let w0 = w\<lparr>calls := (OER, params) # calls w\<rparr> in
      case (case rates self of
              None \<Rightarrow> load_rates (rates_exp self) w0
            | Some rs \<Rightarrow> (Inr rs, w0)) of
        (Inl e, w1) \<Rightarrow> (Inl e, self, w1)
      | (Inr rs, w1) \<Rightarrow>
          (let self1 = self\<lparr>rates := Some rs\<rparr> in
           if in_currency params = ''USD'' then
             (case rs (out_currency params) of
                None \<Rightarrow> (Inl (ConversionError unsupported), self1, w1)
              | Some r \<Rightarrow> (Inr (amount params * r), self1, w1))
           else if out_currency params = ''USD'' then
             (case rs (in_currency params) of
                None \<Rightarrow> (Inl (ConversionError unsupported), self1, w1)
              | Some r \<Rightarrow>
                  if r = 0 then (Inl ZeroDivisionError, self1, w1)
                  else (Inr (amount params / r), self1, w1))
           else
             (case rs (in_currency params) of
                None \<Rightarrow> (Inl (ConversionError unsupported), self1, w1)
              | Some r \<Rightarrow>
                  if r = 0 then (Inl ZeroDivisionError, self1, w1)
                  else convert_oer self1
                         \<lparr>amount = amount params / r, in_currency = ''USD'',
                          out_currency = out_currency params\<rparr> w1)))"
  by pat_completeness auto
termination
  by (relation "measure (\<lambda>(self, params, w). if in_currency params = ''USD'' then 0 else 1)") auto

declare convert_oer.simps [simp del]

definition convert :: "converter_obj \<Rightarrow> string params \<Rightarrow> world \<Rightarrow> (exn + real) \<times> converter_obj \<times> world" where
  "convert self params w =
     (case conv_name self of
        XE \<Rightarrow> (case convert_xe params w of (r, w1) \<Rightarrow> (r, self, w1))
      | OER \<Rightarrow> convert_oer self params w)"

section \<open>App\<close>

text \<open>Python's \<open>sub in s\<close> on strings.\<close>

fun is_prefix_of :: "string \<Rightarrow> string \<Rightarrow> bool" where
  "is_prefix_of [] s = True"
| "is_prefix_of (c # cs) [] = False"
| "is_prefix_of (c # cs) (d # ds) = (c = d \<and> is_prefix_of cs ds)"

fun str_in :: "string \<Rightarrow> string \<Rightarrow> bool" where
  "str_in sub [] = (sub = [])"
| "str_in sub (c # cs) = (is_prefix_of sub (c # cs) \<or> str_in sub cs)"

datatype payload =
    Message string
  | CurrencyList "(string \<times> string \<times> string) list"
  | Conversion real string "(string \<times> real) list"
  | Nested int payload

text \<open>What a call of \<open>main\<close> does: return the list \<open>[code, payload]\<close>, or die of an exception.\<close>

datatype result = Return int payload | Uncaught exn

text \<open>
  The attributes \<open>params\<close> and \<open>out_currs\<close> are not set when \<open>list_currs\<close> is
  True; the model fills them with the raw parameters, which no path reads then.
\<close>

record app =
  app_config :: config
  app_converter :: converter_obj
  list_currs :: bool
  app_params :: "string option params"
  out_currs :: "string option"

definition load_config :: "world \<Rightarrow> exn + config" where
  "load_config w = (case config_json w of None \<Rightarrow> Inl ConfigFileError | Some c \<Rightarrow> Inr c)"

definition ConverterXE :: "real \<Rightarrow> world \<Rightarrow> (exn + converter_obj) \<times> world" where
  "ConverterXE curr_exp w =
     (case load_currencies (curr_exp * 60) w of
        (Inl e, w1) \<Rightarrow> (Inl e, w1)
      | (Inr cs, w1) \<Rightarrow>
          (Inr \<lparr>conv_name = XE, currencies = cs, rates = None, rates_exp = 0\<rparr>, w1))"

definition ConverterOER :: "oer_config \<Rightarrow> real \<Rightarrow> world \<Rightarrow> (exn + converter_obj) \<times> world" where
  "ConverterOER conf curr_exp w =
     (case load_currencies (curr_exp * 60) w of
        (Inl e, w1) \<Rightarrow> (Inl e, w1)
      | (Inr cs, w1) \<Rightarrow>
          (Inr \<lparr>conv_name = OER, currencies = cs, rates = None,
                rates_exp = rates_expiration conf * 60\<rparr>, w1))"

definition set_converter :: "config \<Rightarrow> string \<Rightarrow> world \<Rightarrow> (exn + converter_obj) \<times> world" where
  "set_converter conf override_converter w =
     (if str_in ''xe'' override_converter then ConverterXE (currencies_expiration conf) w
      else if str_in ''oer'' override_converter
        then ConverterOER (oer_config conf) (currencies_expiration conf) w
      else if converter conf = ''ConverterXE'' then ConverterXE (currencies_expiration conf) w
      else ConverterOER (oer_config conf) (currencies_expiration conf) w)"

text \<open>The text \<open>'symbol': '<string>'\<close> that \<open>check_currency\<close> looks for.\<close>

definition symbol_pattern :: "string \<Rightarrow> string" where
  "symbol_pattern s =
     [CHR 0x27] @ ''symbol'' @ [CHR 0x27] @ '': '' @ [CHR 0x27] @ s @ [CHR 0x27]"

definition check_currency ::
  "converter_obj \<Rightarrow> world \<Rightarrow> string option \<Rightarrow> string \<Rightarrow> exn + string option" where
  "check_currency conv w string which =
     (case string of
        None \<Rightarrow> Inr None
      | Some s \<Rightarrow>
          if s \<in> set (map fst (currencies conv)) then Inr (Some s)
          else
            (case find (\<lambda>(code, values). str_in (symbol_pattern s) (str_values w values))
                    (currencies conv) of
               Some (code, values) \<Rightarrow> Inr (Some code)
             | None \<Rightarrow>
                 if which = ''out'' then Inr None
                 else if which = ''in'' then Inl ValueError
                 else Inr None))"

text \<open>
  \<open>App.__init__\<close>: the configuration, then the converter (which loads the directory),
  then the input currency, then the output currency. The input currency handed to
  \<open>check_currency\<close> is always a string, so the check never answers None for it; the
  branch for that answer is there only to make the case distinction complete.
\<close>

definition App :: "string option params \<Rightarrow> string \<Rightarrow> bool \<Rightarrow> world \<Rightarrow> (exn + app) \<times> world" where
  "App params override_converter lc w =
     (case load_config w of
        Inl e \<Rightarrow> (Inl e, w)
      | Inr conf \<Rightarrow>
          (case set_converter conf override_converter w of
             (Inl e, w1) \<Rightarrow> (Inl e, w1)
           | (Inr conv, w1) \<Rightarrow>
               if lc then
                 (Inr \<lparr>app_config = conf, app_converter = conv, list_currs = lc,
                       app_params = params, out_currs = out_currency params\<rparr>, w1)
               else
                 (case check_currency conv w1 (Some (in_currency params)) ''in'' of
                    Inl e \<Rightarrow> (Inl e, w1)
                  | Inr None \<Rightarrow> (Inl ValueError, w1)
                  | Inr (Some inc) \<Rightarrow>
                      (case check_currency conv w1 (out_currency params) ''out'' of
                         Inl e \<Rightarrow> (Inl e, w1)
                       | Inr outc \<Rightarrow>
                           (Inr \<lparr>app_config = conf, app_converter = conv, list_currs = lc,
                                 app_params = \<lparr>amount = amount params, in_currency = inc,
                                               out_currency = outc\<rparr>,
                                 out_currs = outc\<rparr>, w1)))))"

text \<open>
  Python's \<open>round(x, 2)\<close>: the nearest multiple of one hundredth, a tie going to the even
  one.
\<close>

definition round2 :: "real \<Rightarrow> real" where
  "round2 x =
     (let y = x * 100; f = \<lfloor>y\<rfloor>; d = y - of_int f
      in of_int (if d < 1 / 2 then f
                 else if 1 / 2 < d then f + 1
                 else if even f then f else f + 1) / 100)"

text \<open>
  The loop of \<open>get_conversion\<close> over the chosen output currencies, with the dictionary
  \<open>converted\<close> as accumulator. \<open>AList.update\<close> is Python's assignment to a key: a
  new key goes to the end, an old one keeps its place.
\<close>

fun conversion_loop ::
  "real \<Rightarrow> string \<Rightarrow> string list \<Rightarrow> (string \<times> real) list \<Rightarrow> converter_obj \<Rightarrow> world
     \<Rightarrow> (exn + (string \<times> real) list) \<times> converter_obj \<times> world" where
  "conversion_loop amt inc [] converted conv w = (Inr converted, conv, w)"
| "conversion_loop amt inc (target # rest) converted conv w =
     (if target = inc then conversion_loop amt inc rest (AList.update target amt converted) conv w
      else
        (case convert conv \<lparr>amount = amt, in_currency = inc, out_currency = target\<rparr> w of
           (Inl e, conv1, w1) \<Rightarrow>
             if e = ConversionError unsupported
             then conversion_loop amt inc rest converted conv1 w1
             else (Inl e, conv1, w1)
         | (Inr v, conv1, w1) \<Rightarrow>
             conversion_loop amt inc rest
               (AList.update target (round2 v) (AList.update target v converted)) conv1 w1))"

definition get_conversion :: "app \<Rightarrow> world \<Rightarrow> (exn + (string \<times> real) list) \<times> world" where
  "get_conversion self w =
     (let targets =
            (case out_currs self of
               Some c \<Rightarrow> [c]
             | None \<Rightarrow>
                 (case override_currencies (app_config self) of
                    None \<Rightarrow> map fst (currencies (app_converter self))
                  | Some cs \<Rightarrow> cs))
      in case conversion_loop (amount (app_params self)) (in_currency (app_params self))
                targets [] (app_converter self) w of
           (r, conv1, w1) \<Rightarrow> (r, w1))"

text \<open>
  \<open>run\<close>, as called from another module (the list of currencies is returned as data).
  Writing the log file is outside the model.
\<close>

definition run :: "app \<Rightarrow> world \<Rightarrow> (exn + payload) \<times> world" where
  "run self w =
     (if list_currs self then (Inr (CurrencyList (list_currencies (app_converter self))), w)
      else
        (case get_conversion self w of
           (Inl e, w1) \<Rightarrow> (Inl e, w1)
         | (Inr output, w1) \<Rightarrow>
             (Inr (Conversion (amount (app_params self)) (in_currency (app_params self)) output),
              w1)))"

section \<open>main\<close>

text \<open>
  \<open>main\<close> with \<open>CLI=False\<close>. After a failed conversion of the first try it calls itself
  with the other converter and \<open>first_try=False\<close>, and puts what that call returns
  into the list it returns itself.
\<close>

function main ::
  "string option params \<Rightarrow> string \<Rightarrow> bool \<Rightarrow> bool \<Rightarrow> world \<Rightarrow> result \<times> world" where
  "main params override_converter lc first_try w =
     (case App params override_converter lc w of
        (Inl e, w1) \<Rightarrow>
          (case e of
             ConfigFileError \<Rightarrow>
               (Return 2 (Message ''Configuration file is missing or corrupted.''), w1)
           | ValueError \<Rightarrow>
               (Return 1 (Message ''Given input currency is not a valid currency code or symbol.''),
                w1)
           | ConversionError t \<Rightarrow> (Return 2 (Message ''No currencies data available.''), w1)
           | _ \<Rightarrow> (Uncaught e, w1))
      | (Inr app, w1) \<Rightarrow>
          (case run app w1 of
             (Inl e, w2) \<Rightarrow>
               (case e of
                  ConversionError t \<Rightarrow>
                    if \<not> first_try then (Return 2 (Message ''Conversion failed.''), w2)
                    else if t = xe_error then
                      (case main params ''oer'' False False w2 of
                         (Return c p, w3) \<Rightarrow> (Return 0 (Nested c p), w3)
                       | (Uncaught e', w3) \<Rightarrow> (Uncaught e', w3))
                    else if t = oer_error then
                      (case main params ''xe'' False False w2 of
                         (Return c p, w3) \<Rightarrow> (Return 0 (Nested c p), w3)
                       | (Uncaught e', w3) \<Rightarrow> (Uncaught e', w3))
                    else (Uncaught UnboundLocalError, w2)
                | _ \<Rightarrow> (Uncaught e, w2))
           | (Inr output, w2) \<Rightarrow> (Return 0 output, w2)))"
  by pat_completeness auto
termination
  by (relation "measure (\<lambda>(params, override_converter, lc, first_try, w). if first_try then 1 else 0)")
     auto

declare main.simps [simp del]

section \<open>Concrete worlds\<close>

text \<open>
  A small directory, a rate table and two worlds on which the theorems below are
  instantiated: in \<open>offline_world\<close> every remote request fails and the directory cache is
  fresh; in \<open>online_world\<close> every remote request is answered.
\<close>

definition example_currencies :: currencies where
  "example_currencies =
     [(''USD'', \<lparr>symbol = ''$'', name = ''US Dollar''\<rparr>),
      (''EUR'', \<lparr>symbol = ''E'', name = ''Euro''\<rparr>),
      (''GBP'', \<lparr>symbol = ''L'', name = ''Pound''\<rparr>),
      (''BTC'', \<lparr>symbol = ''B'', name = ''Bitcoin''\<rparr>)]"

definition example_rates :: rates where
  "example_rates = [''USD'' \<mapsto> 1, ''EUR'' \<mapsto> 9 / 10, ''GBP'' \<mapsto> 8 / 10]"

definition example_str :: "entry \<Rightarrow> string" where
  "example_str e =
     ''{'' @ [CHR 0x27] @ ''symbol'' @ [CHR 0x27] @ '': '' @ [CHR 0x27] @ symbol e @ [CHR 0x27]
       @ '', '' @ [CHR 0x27] @ ''name'' @ [CHR 0x27] @ '': '' @ [CHR 0x27] @ name e @ [CHR 0x27]
       @ ''}''"

definition example_config :: config where
  "example_config =
     \<lparr>converter = ''ConverterXE'', currencies_expiration = 1440,
      oer_config = \<lparr>app_id = ''id'', rates_expiration = 60\<rparr>,
      override_currencies = None\<rparr>"

definition offline_world :: world where
  "offline_world =
     \<lparr>tick = 0, clock = (\<lambda>t. 1000),
      currencies_server = (\<lambda>t. None), rates_server = (\<lambda>t. None),
      xe_server = (\<lambda>t p. None), str_values = example_str,
      config_json = Some example_config,
      cache_currencies_json = Envelope 1000 (Some example_currencies),
      cache_rates_json = NoFile, calls = []\<rparr>"

text \<open>
  The remote page of \<open>online_world\<close> knows USD, EUR and GBP and answers any other code
  with USD; the rate table has no rate for BTC either.
\<close>

definition example_xe_page :: "string params \<Rightarrow> xe_response option" where
  "example_xe_page p =
     (let known = (\<lambda>c. if c \<in> {''USD'', ''EUR'', ''GBP''} then c else ''USD'')
      in Some \<lparr>xe_converted = amount p * 2,
               xe_returned_currs = (known (in_currency p), known (out_currency p))\<rparr>)"

definition online_world :: world where
  "online_world =
     \<lparr>tick = 0, clock = (\<lambda>t. 1000000),
      currencies_server = (\<lambda>t. Some example_currencies),
      rates_server = (\<lambda>t. Some \<lparr>resp_timestamp = Some 5, resp_rates = Some example_rates\<rparr>),
      xe_server = (\<lambda>t. example_xe_page), str_values = example_str,
      config_json = Some example_config,
      cache_currencies_json = NoFile,
      cache_rates_json = NoFile, calls = []\<rparr>"

text \<open>In \<open>stale_world\<close> both caches are complete but old, and every remote request fails.\<close>

definition stale_world :: world where
  "stale_world =
     \<lparr>tick = 0, clock = (\<lambda>t. 1000000),
      currencies_server = (\<lambda>t. None), rates_server = (\<lambda>t. None),
      xe_server = (\<lambda>t p. None), str_values = example_str,
      config_json = Some example_config,
      cache_currencies_json = Envelope 0 (Some example_currencies),
      cache_rates_json = Envelope 0 (Some example_rates), calls = []\<rparr>"

definition example_xe :: converter_obj where
  "example_xe =
     \<lparr>conv_name = XE, currencies = example_currencies, rates = None, rates_exp = 0\<rparr>"

definition example_oer :: converter_obj where
  "example_oer =
     \<lparr>conv_name = OER, currencies = example_currencies, rates = Some example_rates,
      rates_exp = 3600\<rparr>"

text \<open>
  \<open>refresh_world\<close>: old caches and answering servers. \<open>empty_world\<close>: no directory
  cache and no network. \<open>payloadless_world\<close>: a directory cache that has a timestamp but
  no \<open>currencies\<close> key, and no network.
\<close>

definition refresh_world :: world where
  "refresh_world =
     online_world\<lparr>cache_currencies_json := Envelope 0 (Some []),
                  cache_rates_json := Envelope 0 (Some Map.empty)\<rparr>"


definition payloadless_world :: world where
  "payloadless_world = offline_world\<lparr>cache_currencies_json := Envelope 0 None\<rparr>"

definition example_app :: "real \<Rightarrow> app" where
  "example_app amt =
     \<lparr>app_config = example_config, app_converter = example_xe, list_currs = False,
      app_params = \<lparr>amount = amt, in_currency = ''EUR'', out_currency = None\<rparr>,
      out_currs = None\<rparr>"

section \<open>The scrape-based converter\<close>

text \<open>
  Claim C4. \<open>ConverterXE.convert\<close> returns the parsed amount exactly when the page answered
  and both echoed currency codes are the requested ones; when the page answered with another
  code the call raises \<open>unsupported\<close>, and when the request or the parsing failed it raises
  \<open>xe_error\<close>, which is a different error.
\<close>

theorem xe_convert_integrity:
  "fst (convert_xe params w) =
     (case xe_server w (tick w) params of
        None \<Rightarrow> Inl (ConversionError xe_error)
      | Some response \<Rightarrow>
          if xe_returned_currs response = (in_currency params, out_currency params)
          then Inr (xe_converted response)
          else Inl (ConversionError unsupported))
   \<and> ConversionError unsupported \<noteq> ConversionError xe_error"
  by (auto simp: convert_xe_def get_response_def check_response_def Let_def prod_eq_iff
           split: option.splits)

theorem xe_convert_integrity_witness:
  "fst (convert_xe \<lparr>amount = 100, in_currency = ''EUR'', out_currency = ''XXX''\<rparr> online_world)
     = Inl (ConversionError unsupported)
   \<and> fst (convert_xe \<lparr>amount = 100, in_currency = ''EUR'', out_currency = ''GBP''\<rparr> online_world)
     = Inr 200
   \<and> fst (convert_xe \<lparr>amount = 100, in_currency = ''EUR'', out_currency = ''GBP''\<rparr> offline_world)
     = Inl (ConversionError xe_error)"
  using
    xe_convert_integrity
      [of "\<lparr>amount = 100, in_currency = ''EUR'', out_currency = ''XXX''\<rparr>" online_world]
    xe_convert_integrity
      [of "\<lparr>amount = 100, in_currency = ''EUR'', out_currency = ''GBP''\<rparr>" online_world]
    xe_convert_integrity
      [of "\<lparr>amount = 100, in_currency = ''EUR'', out_currency = ''GBP''\<rparr>" offline_world]
  by (simp add: online_world_def offline_world_def example_xe_page_def)

section \<open>The rate-table converter\<close>

text \<open>
  Claim C3, as stated, fails where the rate of the input currency is zero: the division
  raises ZeroDivisionError and there is no result.
\<close>

theorem oer_convert_zero_rate:
  "fst (convert_oer
          \<lparr>conv_name = OER, currencies = example_currencies,
           rates = Some [''USD'' \<mapsto> 1, ''EUR'' \<mapsto> 0], rates_exp = 3600\<rparr>
          \<lparr>amount = 100, in_currency = ''EUR'', out_currency = ''USD''\<rparr> offline_world)
     = Inl ZeroDivisionError"
  by (simp add: convert_oer.simps)

text \<open>
  Claim C3, amended. With the rate table \<open>R\<close> loaded and both currency codes in it, and the
  rate of the input currency not zero unless the input currency is USD, the result is
  \<open>amount * R[out]\<close> from USD, \<open>amount / R[in]\<close> to USD, and
  \<open>(amount / R[in]) * R[out]\<close> otherwise.
\<close>

theorem oer_convert_pivot:
  assumes "rates self = Some R"
      and "R (in_currency params) = Some r_in"
      and "R (out_currency params) = Some r_out"
      and "in_currency params = ''USD'' \<or> r_in \<noteq> 0"
  shows "fst (convert_oer self params w) =
           Inr (if in_currency params = ''USD'' then amount params * r_out
                else if out_currency params = ''USD'' then amount params / r_in
                else (amount params / r_in) * r_out)"
  using assms
  by (auto simp: convert_oer.simps [of self params w] Let_def
        convert_oer.simps [of "self\<lparr>rates := Some R\<rparr>"
          "\<lparr>amount = amount params / r_in, in_currency = ''USD'',
            out_currency = out_currency params\<rparr>"])

theorem oer_convert_pivot_witness:
  "fst (convert_oer example_oer
          \<lparr>amount = 100, in_currency = ''EUR'', out_currency = ''GBP''\<rparr> offline_world)
     = Inr (100 / (9 / 10) * (8 / 10))"
  using oer_convert_pivot
      [of example_oer example_rates
          "\<lparr>amount = 100, in_currency = ''EUR'', out_currency = ''GBP''\<rparr>"
          "9 / 10" "8 / 10" offline_world]
  by (simp add: example_oer_def example_rates_def)

lemma calls_load_rates: "calls (snd (load_rates e w)) = calls w"
  by (simp add: load_rates_def save_rates_def time_time_def advance_def Let_def
           split: cache_file.splits option.splits prod.splits)

lemma calls_convert_oer_usd:
  "in_currency params = ''USD'' \<Longrightarrow>
     calls (snd (snd (convert_oer self params w))) = (OER, params) # calls w"
  using calls_load_rates [of "rates_exp self" "w\<lparr>calls := (OER, params) # calls w\<rparr>"]
  by (auto simp: convert_oer.simps [of self params w] Let_def
        split: option.splits prod.splits sum.splits)

text \<open>
  Claim C9. \<open>ConverterOER.convert\<close> is a total function (its recursion decreases the
  measure that is 0 for a request from USD and 1 otherwise). One call logs itself and at most
  one further call, its own recursive one, and that call converts from USD; on the pivot
  path (neither currency USD, the input rate present and not zero) there is exactly that one.
\<close>

theorem oer_convert_depth:
  "(\<exists>extra. calls (snd (snd (convert_oer self params w))) = extra @ (OER, params) # calls w
      \<and> (extra = [] \<or>
          (in_currency params \<noteq> ''USD'' \<and> out_currency params \<noteq> ''USD'' \<and>
           (\<exists>a. extra = [(OER, \<lparr>amount = a, in_currency = ''USD'',
                                 out_currency = out_currency params\<rparr>)]))))
   \<and> (rates self = Some R \<and> R (in_currency params) = Some r \<and> r \<noteq> 0
        \<and> in_currency params \<noteq> ''USD'' \<and> out_currency params \<noteq> ''USD''
       \<longrightarrow> calls (snd (snd (convert_oer self params w)))
             = [(OER, \<lparr>amount = amount params / r, in_currency = ''USD'',
                       out_currency = out_currency params\<rparr>), (OER, params)] @ calls w)"
proof (cases "in_currency params = ''USD''")
  case True
  then show ?thesis by (simp add: calls_convert_oer_usd)
next
  case False
  show ?thesis
    using False calls_load_rates [of "rates_exp self" "w\<lparr>calls := (OER, params) # calls w\<rparr>"]
    by (auto simp: convert_oer.simps [of self params w] Let_def calls_convert_oer_usd
          split: option.splits prod.splits sum.splits)
qed

theorem oer_convert_depth_witness:
  "calls (snd (snd (convert_oer example_oer
            \<lparr>amount = 100, in_currency = ''EUR'', out_currency = ''GBP''\<rparr> offline_world)))
     = [(OER, \<lparr>amount = 100 / (9 / 10), in_currency = ''USD'', out_currency = ''GBP''\<rparr>),
        (OER, \<lparr>amount = 100, in_currency = ''EUR'', out_currency = ''GBP''\<rparr>)]"
  using oer_convert_depth
      [of example_oer "\<lparr>amount = 100, in_currency = ''EUR'', out_currency = ''GBP''\<rparr>"
          offline_world example_rates "9 / 10"]
  by (simp add: example_oer_def example_rates_def offline_world_def)

section \<open>The caches\<close>

text \<open>
  Claim C2, as stated, fails for the rate table: with an old but complete rates cache and a
  failing request, \<open>load_rates\<close> raises \<open>oer_error\<close>.
\<close>

theorem stale_rates_not_served:
  "fst (load_rates 3600 stale_world) = Inl (ConversionError oer_error)"
  by (simp add: load_rates_def stale_world_def time_time_def advance_def)

text \<open>
  Claim C2, amended. With a complete cache file older than the expiration window and a
  failing remote request, the loader of the currency directory adopts the cached payload
  and raises nothing, whereas the loader of the rate table raises \<open>oer_error\<close>.
\<close>

theorem stale_cache_policy:
  "(cache_currencies_json w = Envelope ts (Some cs) \<and> clock w (tick w) - ts > window
      \<and> currencies_server w (Suc (tick w)) = None
     \<longrightarrow> fst (load_currencies window w) = Inr cs)
   \<and> (cache_rates_json w = Envelope ts' (Some rs) \<and> clock w (tick w) - ts' > window'
      \<and> rates_server w (Suc (tick w)) = None
     \<longrightarrow> fst (load_rates window' w) = Inl (ConversionError oer_error))"
  by (simp add: load_currencies_def load_rates_def get_currencies_def time_time_def advance_def
        Let_def)

theorem stale_cache_policy_witness:
  "fst (load_currencies 86400 stale_world) = Inr example_currencies
   \<and> fst (load_rates 3600 stale_world) = Inl (ConversionError oer_error)"
  using stale_cache_policy [of stale_world 0 example_currencies 86400 0 example_rates 3600]
  by (simp add: stale_world_def)

text \<open>
  Claim C8, as stated, fails for the rates cache: the timestamp saved is the one of the
  response (5 here), not the time of the fetch (1000000 at every tick here).
\<close>

theorem rates_timestamp_not_now:
  "cache_rates_json (snd (load_rates 3600 online_world)) = Envelope 5 (Some example_rates)
   \<and> clock online_world 0 = 1000000 \<and> clock online_world 1 = 1000000"
  by (simp add: load_rates_def save_rates_def online_world_def time_time_def advance_def)

text \<open>
  Claim C8, amended. Saving replaces the whole envelope by a timestamp and the complete new
  payload, whatever the file held. For the currencies the timestamp is the clock read by
  \<open>save_currencies\<close>, right after the fetch; for the rates it is the timestamp that the
  response carries. The last two conjuncts say the same of a refresh by the loaders.
\<close>

theorem save_overwrites_envelope:
  "cache_currencies_json (save_currencies cs w) = Envelope (clock w (tick w)) (Some cs)
   \<and> (resp_timestamp response = Some ts \<and> resp_rates response = Some rs
        \<longrightarrow> cache_rates_json (snd (save_rates response w)) = Envelope ts (Some rs))
   \<and> (cache_currencies_json w = Envelope tc old \<and> clock w (tick w) - tc > window
        \<and> currencies_server w (Suc (tick w)) = Some cs
        \<longrightarrow> cache_currencies_json (snd (load_currencies window w))
              = Envelope (clock w (Suc (Suc (tick w)))) (Some cs))
   \<and> (cache_rates_json w = Envelope tr old' \<and> clock w (tick w) - tr > window'
        \<and> rates_server w (Suc (tick w)) = Some response
        \<and> resp_timestamp response = Some ts \<and> resp_rates response = Some rs
        \<longrightarrow> cache_rates_json (snd (load_rates window' w)) = Envelope ts (Some rs))"
  by (simp add: save_currencies_def save_rates_def load_currencies_def load_rates_def
        get_currencies_def time_time_def advance_def Let_def)

theorem save_overwrites_envelope_witness:
  "cache_currencies_json (snd (load_currencies 86400 refresh_world))
     = Envelope 1000000 (Some example_currencies)
   \<and> cache_rates_json (snd (load_rates 3600 refresh_world)) = Envelope 5 (Some example_rates)"
  using save_overwrites_envelope
     [where cs = example_currencies and w = refresh_world
        and response = "\<lparr>resp_timestamp = Some 5, resp_rates = Some example_rates\<rparr>"
        and ts = 5 and rs = example_rates and tc = 0 and old = "Some []" and window = 86400
        and tr = 0 and old' = "Some Map.empty" and window' = 3600]
  by (simp add: refresh_world_def online_world_def)

section \<open>No directory at all\<close>





text \<open>
  A remark on the loader: a cache file that has a timestamp but no \<open>currencies\<close> key is
  not among the cases above. The loader reads the key outside its first try block, so with
  the network down it raises KeyError, which \<open>main\<close> does not catch.
\<close>

lemma load_currencies_without_payload:
  "fst (load_currencies (1440 * 60) payloadless_world) = Inl KeyError
   \<and> fst (main \<lparr>amount = 100, in_currency = ''EUR'', out_currency = Some ''GBP''\<rparr> '''' False True
           payloadless_world) = Uncaught KeyError"
  by (simp add: main.simps App_def load_config_def set_converter_def ConverterXE_def
        load_currencies_def get_currencies_def time_time_def advance_def
        payloadless_world_def offline_world_def example_config_def)

section \<open>The loop over the output currencies\<close>

text \<open>
  The definitions that the evaluation of the program on a concrete world unfolds.
\<close>

lemmas eval_defs = main.simps App_def load_config_def set_converter_def ConverterXE_def
  ConverterOER_def load_currencies_def get_currencies_def save_currencies_def time_time_def
  advance_def check_currency_def symbol_pattern_def run_def get_conversion_def convert_def
  convert_xe_def get_response_def check_response_def load_rates_def save_rates_def
  convert_oer.simps round2_def Let_def
  online_world_def offline_world_def example_config_def example_currencies_def
  example_xe_page_def example_rates_def example_str_def example_xe_def example_oer_def

text \<open>
  What a converter can raise and what it logs: a ConversionError from \<open>convert\<close> is
  \<open>xe_error\<close>, \<open>oer_error\<close> or \<open>unsupported\<close>, and every call it logs asks for the
  output currency of the request.
\<close>

lemma load_rates_errors:
  "fst (load_rates e w) = Inl (ConversionError t) \<Longrightarrow> t = oer_error"
  by (auto simp: load_rates_def save_rates_def time_time_def advance_def Let_def
           split: cache_file.splits option.splits prod.splits if_splits)

lemma convert_oer_usd_errors:
  "in_currency params = ''USD'' \<Longrightarrow> fst (convert_oer self params w) = Inl (ConversionError t)
     \<Longrightarrow> t = oer_error \<or> t = unsupported"
  using load_rates_errors [of "rates_exp self" "w\<lparr>calls := (OER, params) # calls w\<rparr>" t]
  by (auto simp: convert_oer.simps [of self params w] Let_def
        split: option.splits prod.splits sum.splits if_splits)

lemma convert_oer_errors:
  "fst (convert_oer self params w) = Inl (ConversionError t)
     \<Longrightarrow> t = oer_error \<or> t = unsupported"
proof (cases "in_currency params = ''USD''")
  case True
  assume "fst (convert_oer self params w) = Inl (ConversionError t)"
  with True show ?thesis by (rule convert_oer_usd_errors)
next
  case False
  assume a: "fst (convert_oer self params w) = Inl (ConversionError t)"
  show ?thesis
    using False a load_rates_errors [of "rates_exp self" "w\<lparr>calls := (OER, params) # calls w\<rparr>" t]
    by (auto simp: convert_oer.simps [of self params w] Let_def
          split: option.splits prod.splits sum.splits if_splits
          dest: convert_oer_usd_errors [rotated])
qed

lemma convert_errors:
  "fst (convert conv params w) = Inl (ConversionError t)
     \<Longrightarrow> t = xe_error \<or> t = oer_error \<or> t = unsupported"
  by (auto simp: convert_def convert_xe_def get_response_def Let_def
        split: converter_name.splits prod.splits sum.splits option.splits if_splits
        dest: convert_oer_errors)

lemma calls_convert_oer:
  "\<exists>extra. calls (snd (snd (convert_oer self params w))) = extra @ (OER, params) # calls w
      \<and> (extra = [] \<or>
          (in_currency params \<noteq> ''USD'' \<and> out_currency params \<noteq> ''USD'' \<and>
           (\<exists>a. extra = [(OER, \<lparr>amount = a, in_currency = ''USD'',
                                 out_currency = out_currency params\<rparr>)])))"
proof (cases "in_currency params = ''USD''")
  case True
  then show ?thesis by (simp add: calls_convert_oer_usd)
next
  case False
  show ?thesis
    using False calls_load_rates [of "rates_exp self" "w\<lparr>calls := (OER, params) # calls w\<rparr>"]
    by (auto simp: convert_oer.simps [of self params w] Let_def calls_convert_oer_usd
          split: option.splits prod.splits sum.splits)
qed

lemma calls_convert:
  "c \<in> set (calls (snd (snd (convert conv params w))))
     \<Longrightarrow> c \<in> set (calls w) \<or> out_currency (snd c) = out_currency params"
proof (cases "conv_name conv")
  case XE
  assume "c \<in> set (calls (snd (snd (convert conv params w))))"
  with XE show ?thesis
    by (auto simp: convert_def convert_xe_def get_response_def advance_def Let_def
          split: prod.splits sum.splits option.splits if_splits)
next
  case OER
  assume a: "c \<in> set (calls (snd (snd (convert conv params w))))"
  from calls_convert_oer [of conv params w] obtain extra where
    e: "calls (snd (snd (convert_oer conv params w))) = extra @ (OER, params) # calls w"
    and x: "extra = [] \<or> (\<exists>a. extra = [(OER, \<lparr>amount = a, in_currency = ''USD'',
                                 out_currency = out_currency params\<rparr>)])"
    by blast
  from a OER e x show ?thesis by (auto simp: convert_def)
qed

lemma set_update_cases:
  "(a, b) \<in> set (AList.update k v al) \<Longrightarrow> (a, b) = (k, v) \<or> (a, b) \<in> set al"
  by (induction al) (auto split: if_splits)

lemma round2_hundredths: "\<exists>k::int. round2 x = of_int k / 100"
  by (auto simp: round2_def Let_def)

lemma round2_near: "\<bar>round2 x - x\<bar> \<le> 1 / 200"
proof -
  define f :: int where "f = \<lfloor>x * 100\<rfloor>"
  define d where "d = x * 100 - of_int f"
  have b: "0 \<le> d" "d < 1"
    unfolding d_def f_def by linarith+
  have x: "x = (of_int f + d) / 100"
    unfolding d_def by simp
  have r: "round2 x = of_int (if d < 1 / 2 then f else if 1 / 2 < d then f + 1
                              else if even f then f else f + 1) / 100"
    unfolding round2_def Let_def d_def f_def by simp
  have h: "\<bar>of_int (if d < 1 / 2 then f else if 1 / 2 < d then f + 1
                     else if even f then f else f + 1) / 100 - (of_int f + d) / 100\<bar>
          \<le> 1 / 200"
    using b by (auto simp: abs_if field_simps)
  show ?thesis unfolding r by (subst x) (rule h)
qed

text \<open>
  The loop of \<open>get_conversion\<close>: it can be cut at any target, its dictionary only gains
  keys, the ConversionErrors that leave it are never \<open>unsupported\<close>, and each of its
  entries is the input amount under the input currency or a rounded amount under another
  target.
\<close>

lemma conversion_loop_append:
  "conversion_loop amt inc (xs @ ys) c conv w =
     (case conversion_loop amt inc xs c conv w of
        (Inl e, conv1, w1) \<Rightarrow> (Inl e, conv1, w1)
      | (Inr m1, conv1, w1) \<Rightarrow> conversion_loop amt inc ys m1 conv1 w1)"
  by (induction xs arbitrary: c conv w) (auto split: prod.splits sum.splits)

lemma conversion_loop_keys:
  "fst (conversion_loop amt inc targets c conv w) = Inr m \<Longrightarrow> fst ` set c \<subseteq> fst ` set m"
proof (induction targets arbitrary: c conv w)
  case Nil
  then show ?case by simp
next
  case (Cons t targets)
  show ?case
  proof (cases "t = inc")
    case True
    with Cons.prems have "fst (conversion_loop amt inc targets (AList.update t amt c) conv w) = Inr m"
      by simp
    from Cons.IH [OF this] show ?thesis by (auto simp: dom_update)
  next
    case False
    obtain r conv1 w1 where cv: "convert conv \<lparr>amount = amt, in_currency = inc, out_currency = t\<rparr> w = (r, conv1, w1)"
      by (cases "convert conv \<lparr>amount = amt, in_currency = inc, out_currency = t\<rparr> w") auto
    show ?thesis
    proof (cases r)
      case (Inl e)
      with Cons.prems False cv have "fst (conversion_loop amt inc targets c conv1 w1) = Inr m"
        by (simp split: if_splits)
      from Cons.IH [OF this] show ?thesis .
    next
      case (Inr v)
      with Cons.prems False cv have
        "fst (conversion_loop amt inc targets (AList.update t (round2 v) (AList.update t v c)) conv1 w1) = Inr m"
        by simp
      from Cons.IH [OF this] show ?thesis by (auto simp: dom_update)
    qed
  qed
qed


lemma conversion_loop_errors:
  "fst (conversion_loop amt inc targets c conv w) = Inl (ConversionError ty)
     \<Longrightarrow> ty = xe_error \<or> ty = oer_error"
proof (induction targets arbitrary: c conv w)
  case Nil
  then show ?case by simp
next
  case (Cons t targets)
  show ?case
  proof (cases "t = inc")
    case True
    with Cons show ?thesis by simp
  next
    case False
    obtain r conv1 w1 where
      cv: "convert conv \<lparr>amount = amt, in_currency = inc, out_currency = t\<rparr> w = (r, conv1, w1)"
      by (cases "convert conv \<lparr>amount = amt, in_currency = inc, out_currency = t\<rparr> w") auto
    show ?thesis
    proof (cases r)
      case (Inl e)
      show ?thesis
      proof (cases "e = ConversionError unsupported")
        case True
        with Cons False cv Inl show ?thesis by simp
      next
        case ne: False
        with Cons.prems False cv Inl have "e = ConversionError ty" by simp
        with convert_errors [of conv "\<lparr>amount = amt, in_currency = inc, out_currency = t\<rparr>" w ty]
          cv Inl ne show ?thesis by auto
      qed
    next
      case (Inr v)
      with Cons False cv show ?thesis by simp
    qed
  qed
qed

lemma conversion_loop_entries:
  "fst (conversion_loop amt inc targets c conv w) = Inr m \<Longrightarrow> (t, v) \<in> set m \<Longrightarrow>
     (t, v) \<in> set c \<or> (t = inc \<and> v = amt) \<or> (t \<noteq> inc \<and> t \<in> set targets \<and> (\<exists>x. v = round2 x))"
proof (induction targets arbitrary: c conv w)
  case Nil
  then show ?case by simp
next
  case (Cons u targets)
  show ?case
  proof (cases "u = inc")
    case True
    with Cons.prems have
      "fst (conversion_loop amt inc targets (AList.update u amt c) conv w) = Inr m" by simp
    from Cons.IH [OF this Cons.prems(2)] True show ?thesis
      by (auto dest: set_update_cases)
  next
    case False
    obtain r conv1 w1 where
      cv: "convert conv \<lparr>amount = amt, in_currency = inc, out_currency = u\<rparr> w = (r, conv1, w1)"
      by (cases "convert conv \<lparr>amount = amt, in_currency = inc, out_currency = u\<rparr> w") auto
    show ?thesis
    proof (cases r)
      case (Inl e)
      with Cons.prems False cv have "fst (conversion_loop amt inc targets c conv1 w1) = Inr m"
        by (simp split: if_splits)
      from Cons.IH [OF this Cons.prems(2)] show ?thesis by auto
    next
      case (Inr x)
      with Cons.prems False cv have
        "fst (conversion_loop amt inc targets
                (AList.update u (round2 x) (AList.update u x c)) conv1 w1) = Inr m"
        by simp
      from Cons.IH [OF this Cons.prems(2)] False show ?thesis
        by (auto dest!: set_update_cases)
    qed
  qed
qed

lemma conversion_loop_in_currency:
  "fst (conversion_loop amt inc targets c conv w) = Inr m \<Longrightarrow>
     map_of m inc = (if inc \<in> set targets then Some amt else map_of c inc)"
proof (induction targets arbitrary: c conv w)
  case Nil
  then show ?case by simp
next
  case (Cons u targets)
  show ?case
  proof (cases "u = inc")
    case True
    with Cons.prems have
      "fst (conversion_loop amt inc targets (AList.update u amt c) conv w) = Inr m" by simp
    from Cons.IH [OF this] True show ?thesis by (simp add: update_conv')
  next
    case False
    obtain r conv1 w1 where
      cv: "convert conv \<lparr>amount = amt, in_currency = inc, out_currency = u\<rparr> w = (r, conv1, w1)"
      by (cases "convert conv \<lparr>amount = amt, in_currency = inc, out_currency = u\<rparr> w") auto
    show ?thesis
    proof (cases r)
      case (Inl e)
      with Cons.prems False cv have "fst (conversion_loop amt inc targets c conv1 w1) = Inr m"
        by (simp split: if_splits)
      from Cons.IH [OF this] False show ?thesis by auto
    next
      case (Inr x)
      with Cons.prems False cv have
        "fst (conversion_loop amt inc targets
                (AList.update u (round2 x) (AList.update u x c)) conv1 w1) = Inr m"
        by simp
      from Cons.IH [OF this] False show ?thesis by (auto simp: update_conv')
    qed
  qed
qed

lemma conversion_loop_calls:
  "k \<in> set (calls (snd (snd (conversion_loop amt inc targets c conv w)))) \<Longrightarrow>
     k \<in> set (calls w) \<or> (out_currency (snd k) \<in> set targets \<and> out_currency (snd k) \<noteq> inc)"
proof (induction targets arbitrary: c conv w)
  case Nil
  then show ?case by simp
next
  case (Cons u targets)
  show ?case
  proof (cases "u = inc")
    case True
    with Cons.prems have
      "k \<in> set (calls (snd (snd (conversion_loop amt inc targets (AList.update u amt c) conv w))))"
      by simp
    from Cons.IH [OF this] show ?thesis by auto
  next
    case False
    obtain r conv1 w1 where
      cv: "convert conv \<lparr>amount = amt, in_currency = inc, out_currency = u\<rparr> w = (r, conv1, w1)"
      by (cases "convert conv \<lparr>amount = amt, in_currency = inc, out_currency = u\<rparr> w") auto
    have w1: "k \<in> set (calls w1) \<Longrightarrow> k \<in> set (calls w) \<or> out_currency (snd k) = u"
      using calls_convert [of k conv "\<lparr>amount = amt, in_currency = inc, out_currency = u\<rparr>" w] cv
      by simp
    show ?thesis
    proof (cases r)
      case (Inl e)
      show ?thesis
      proof (cases "e = ConversionError unsupported")
        case True
        with Cons.prems False cv Inl have
          "k \<in> set (calls (snd (snd (conversion_loop amt inc targets c conv1 w1))))" by simp
        from Cons.IH [OF this] w1 False show ?thesis by auto
      next
        case ne: False
        with Cons.prems False cv Inl have "k \<in> set (calls w1)" by simp
        with w1 False show ?thesis by auto
      qed
    next
      case (Inr x)
      with Cons.prems False cv have
        "k \<in> set (calls (snd (snd (conversion_loop amt inc targets
                (AList.update u (round2 x) (AList.update u x c)) conv1 w1))))"
        by simp
      from Cons.IH [OF this] w1 False show ?thesis by auto
    qed
  qed
qed

lemma get_conversion_loop:
  "fst (get_conversion self w) =
     fst (conversion_loop (amount (app_params self)) (in_currency (app_params self))
            (case out_currs self of
               Some c \<Rightarrow> [c]
             | None \<Rightarrow>
                 (case override_currencies (app_config self) of
                    None \<Rightarrow> map fst (currencies (app_converter self))
                  | Some cs \<Rightarrow> cs))
            [] (app_converter self) w)"
  "snd (get_conversion self w) =
     snd (snd (conversion_loop (amount (app_params self)) (in_currency (app_params self))
            (case out_currs self of
               Some c \<Rightarrow> [c]
             | None \<Rightarrow>
                 (case override_currencies (app_config self) of
                    None \<Rightarrow> map fst (currencies (app_converter self))
                  | Some cs \<Rightarrow> cs))
            [] (app_converter self) w))"
  by (simp_all add: get_conversion_def Let_def split: prod.splits)

lemma get_conversion_errors:
  "fst (get_conversion self w) = Inl (ConversionError ty) \<Longrightarrow> ty = xe_error \<or> ty = oer_error"
  unfolding get_conversion_loop by (rule conversion_loop_errors)

lemma run_errors:
  "fst (run self w) = Inl (ConversionError ty) \<Longrightarrow> ty = xe_error \<or> ty = oer_error"
  using get_conversion_errors [of self w ty]
  by (auto simp: run_def split: if_splits prod.splits sum.splits)

text \<open>
  Claim C5. An \<open>unsupported\<close> error never reaches the retry of \<open>main\<close>. In the loop
  over the targets, reached at a target \<open>t\<close> after the targets \<open>pre\<close>: if the
  conversion to \<open>t\<close> raises \<open>unsupported\<close>, the loop goes on with the targets
  \<open>post\<close> and the dictionary it had, so the result is the one of the other targets; if
  the conversion to \<open>t\<close> returns a value, \<open>t\<close> is a key of the final dictionary. A
  ConversionError that leaves \<open>get_conversion\<close> or \<open>run\<close> is \<open>xe_error\<close> or
  \<open>oer_error\<close>, and when \<open>run\<close> returns, \<open>main\<close> returns its output with code 0
  and calls no other converter.
\<close>

theorem unsupported_is_skipped:
  "(conversion_loop amt inc pre c conv w = (Inr m1, conv1, w1) \<and> t \<noteq> inc
      \<and> convert conv1 \<lparr>amount = amt, in_currency = inc, out_currency = t\<rparr> w1
          = (Inl (ConversionError unsupported), conv2, w2)
      \<longrightarrow> conversion_loop amt inc (pre @ t # post) c conv w
            = conversion_loop amt inc post m1 conv2 w2)
   \<and> (conversion_loop amt inc pre c conv w = (Inr m1, conv1, w1) \<and> t \<noteq> inc
      \<and> fst (convert conv1 \<lparr>amount = amt, in_currency = inc, out_currency = t\<rparr> w1) = Inr v
      \<and> fst (conversion_loop amt inc (pre @ t # post) c conv w) = Inr m
      \<longrightarrow> t \<in> fst ` set m)
   \<and> (fst (get_conversion self ws) = Inl (ConversionError ty) \<longrightarrow> ty = xe_error \<or> ty = oer_error)
   \<and> (fst (run self ws) = Inl (ConversionError ty) \<longrightarrow> ty = xe_error \<or> ty = oer_error)
   \<and> (App params override_converter lc w0 = (Inr a, wa) \<and> run a wa = (Inr outp, wb)
      \<longrightarrow> main params override_converter lc first_try w0 = (Return 0 outp, wb))"
proof (intro conjI impI)
  assume "conversion_loop amt inc pre c conv w = (Inr m1, conv1, w1) \<and> t \<noteq> inc
      \<and> convert conv1 \<lparr>amount = amt, in_currency = inc, out_currency = t\<rparr> w1
          = (Inl (ConversionError unsupported), conv2, w2)"
  then show "conversion_loop amt inc (pre @ t # post) c conv w
            = conversion_loop amt inc post m1 conv2 w2"
    by (simp add: conversion_loop_append)
next
  assume a: "conversion_loop amt inc pre c conv w = (Inr m1, conv1, w1) \<and> t \<noteq> inc
      \<and> fst (convert conv1 \<lparr>amount = amt, in_currency = inc, out_currency = t\<rparr> w1) = Inr v
      \<and> fst (conversion_loop amt inc (pre @ t # post) c conv w) = Inr m"
  obtain conv2 w2 where
    cv: "convert conv1 \<lparr>amount = amt, in_currency = inc, out_currency = t\<rparr> w1 = (Inr v, conv2, w2)"
    using a by (cases "convert conv1 \<lparr>amount = amt, in_currency = inc, out_currency = t\<rparr> w1") auto
  from a have l: "conversion_loop amt inc pre c conv w = (Inr m1, conv1, w1)"
    and ne: "t \<noteq> inc"
    and res: "fst (conversion_loop amt inc (pre @ t # post) c conv w) = Inr m"
    by simp_all
  from res have
    "fst (conversion_loop amt inc post (AList.update t (round2 v) (AList.update t v m1)) conv2 w2)
       = Inr m"
    by (simp add: conversion_loop_append l ne cv)
  from conversion_loop_keys [OF this] show "t \<in> fst ` set m"
    by (auto simp: dom_update)
next
  assume "fst (get_conversion self ws) = Inl (ConversionError ty)"
  then show "ty = xe_error \<or> ty = oer_error" by (rule get_conversion_errors)
next
  assume "fst (run self ws) = Inl (ConversionError ty)"
  then show "ty = xe_error \<or> ty = oer_error" by (rule run_errors)
next
  assume "App params override_converter lc w0 = (Inr a, wa) \<and> run a wa = (Inr outp, wb)"
  then show "main params override_converter lc first_try w0 = (Return 0 outp, wb)"
    by (simp add: main.simps [of params override_converter lc first_try w0])
qed

theorem unsupported_is_skipped_witness:
  "conversion_loop 100 ''EUR'' [''USD'', ''EUR'', ''GBP'', ''BTC''] [] example_xe online_world
     = (Inr [(''USD'', 200), (''EUR'', 100), (''GBP'', 200)], example_xe,
        online_world\<lparr>tick := 3,
          calls := [(XE, \<lparr>amount = 100, in_currency = ''EUR'', out_currency = ''BTC''\<rparr>),
                    (XE, \<lparr>amount = 100, in_currency = ''EUR'', out_currency = ''GBP''\<rparr>),
                    (XE, \<lparr>amount = 100, in_currency = ''EUR'', out_currency = ''USD''\<rparr>)]\<rparr>)
   \<and> fst (main \<lparr>amount = 100, in_currency = ''EUR'', out_currency = None\<rparr> '''' False True
            online_world)
       = Return 0 (Conversion 100 ''EUR'' [(''USD'', 200), (''EUR'', 100), (''GBP'', 200)])"
  using unsupported_is_skipped
     [where amt = 100 and inc = "''EUR''" and pre = "[''USD'', ''EUR'', ''GBP'']" and c = "[]"
        and conv = example_xe and w = online_world and ?w0.0 = online_world
        and self = "example_app 100" and ws = offline_world and ty = xe_error
        and ?m1.0 = "[(''USD'', 200), (''EUR'', 100), (''GBP'', 200)]"
        and ?conv1.0 = example_xe
        and ?w1.0 = "online_world\<lparr>tick := 2,
          calls := [(XE, \<lparr>amount = 100, in_currency = ''EUR'', out_currency = ''GBP''\<rparr>),
                    (XE, \<lparr>amount = 100, in_currency = ''EUR'', out_currency = ''USD''\<rparr>)]\<rparr>"
        and t = "''BTC''" and ?conv2.0 = example_xe
        and ?w2.0 = "online_world\<lparr>tick := 3,
          calls := [(XE, \<lparr>amount = 100, in_currency = ''EUR'', out_currency = ''BTC''\<rparr>),
                    (XE, \<lparr>amount = 100, in_currency = ''EUR'', out_currency = ''GBP''\<rparr>),
                    (XE, \<lparr>amount = 100, in_currency = ''EUR'', out_currency = ''USD''\<rparr>)]\<rparr>"
        and post = "[]"
        and params = "\<lparr>amount = 100, in_currency = ''EUR'', out_currency = None\<rparr>"
        and override_converter = "''''" and lc = False and first_try = True
        and a = "example_app 100"
        and wa = "online_world\<lparr>tick := 2,
                    cache_currencies_json := Envelope 1000000 (Some example_currencies)\<rparr>"
        and outp = "Conversion 100 ''EUR'' [(''USD'', 200), (''EUR'', 100), (''GBP'', 200)]"
        and wb = "online_world\<lparr>tick := 5,
          cache_currencies_json := Envelope 1000000 (Some example_currencies),
          calls := [(XE, \<lparr>amount = 100, in_currency = ''EUR'', out_currency = ''BTC''\<rparr>),
                    (XE, \<lparr>amount = 100, in_currency = ''EUR'', out_currency = ''GBP''\<rparr>),
                    (XE, \<lparr>amount = 100, in_currency = ''EUR'', out_currency = ''USD''\<rparr>)]\<rparr>"]
  by (simp add: example_app_def eval_defs)

text \<open>
  Claim C7, as stated, fails for the target that is the input currency: its entry is the
  input amount as given, 1.234 here, which is not rounded to two decimal places (the amounts
  that the converter returned, 2.468, are).
\<close>

theorem unrounded_in_currency:
  "fst (main \<lparr>amount = 1234 / 1000, in_currency = ''EUR'', out_currency = None\<rparr> '''' False True
          online_world)
     = Return 0 (Conversion (1234 / 1000) ''EUR''
                  [(''USD'', 247 / 100), (''EUR'', 1234 / 1000), (''GBP'', 247 / 100)])
   \<and> round2 (1234 / 1000) = 123 / 100"
  by (simp add: eval_defs)

text \<open>
  Claim C7, amended. In the output map, the amount under a target other than the input
  currency is a result of \<open>round(x, 2)\<close>, a whole number of hundredths; the amount under
  the input currency is the input amount, not rounded, and it is there whenever the targets
  are the whole directory; and no converter call asks for the input currency as output.
\<close>

theorem get_conversion_amounts:
  assumes "inc = in_currency (app_params self)" and "amt = amount (app_params self)"
  shows "(fst (get_conversion self w) = Inr m \<longrightarrow>
            (\<forall>(t, v) \<in> set m.
               (t = inc \<longrightarrow> v = amt)
               \<and> (t \<noteq> inc \<longrightarrow> (\<exists>x. v = round2 x) \<and> (\<exists>k::int. v = of_int k / 100)))
            \<and> (out_currs self = None \<and> override_currencies (app_config self) = None
                 \<and> inc \<in> fst ` set (currencies (app_converter self))
               \<longrightarrow> map_of m inc = Some amt))
         \<and> (\<forall>k \<in> set (calls (snd (get_conversion self w))).
               k \<in> set (calls w) \<or> out_currency (snd k) \<noteq> inc)"
proof (intro conjI impI ballI)
  fix tv
  assume r: "fst (get_conversion self w) = Inr m" and tv: "tv \<in> set m"
  obtain t v where p: "tv = (t, v)" by (cases tv)
  from r tv p conversion_loop_entries [of amt inc _ "[]" "app_converter self" w m t v]
  have "(t = inc \<and> v = amt) \<or> (t \<noteq> inc \<and> (\<exists>x. v = round2 x))"
    unfolding get_conversion_loop assms by auto
  then show "case tv of (t, v) \<Rightarrow>
               (t = inc \<longrightarrow> v = amt)
               \<and> (t \<noteq> inc \<longrightarrow> (\<exists>x. v = round2 x) \<and> (\<exists>k::int. v = of_int k / 100))"
    using p round2_hundredths by auto
next
  assume r: "fst (get_conversion self w) = Inr m"
    and d: "out_currs self = None \<and> override_currencies (app_config self) = None
                 \<and> inc \<in> fst ` set (currencies (app_converter self))"
  from r d conversion_loop_in_currency
         [of amt inc "map fst (currencies (app_converter self))" "[]" "app_converter self" w m]
  show "map_of m inc = Some amt"
    unfolding get_conversion_loop assms by auto
next
  fix k
  assume "k \<in> set (calls (snd (get_conversion self w)))"
  then show "k \<in> set (calls w) \<or> out_currency (snd k) \<noteq> inc"
    unfolding get_conversion_loop assms by (auto dest: conversion_loop_calls)
qed

theorem get_conversion_amounts_witness:
  "fst (get_conversion (example_app (1234 / 1000)) online_world)
     = Inr [(''USD'', 247 / 100), (''EUR'', 1234 / 1000), (''GBP'', 247 / 100)]
   \<and> map_of [(''USD'', 247 / 100), (''EUR'', 1234 / 1000), (''GBP'', 247 / 100 :: real)] ''EUR''
       = Some (1234 / 1000)
   \<and> map (\<lambda>k. out_currency (snd k))
         (calls (snd (get_conversion (example_app (1234 / 1000)) online_world)))
       = [''BTC'', ''GBP'', ''USD'']"
  using get_conversion_amounts
     [of "''EUR''" "example_app (1234 / 1000)" "1234 / 1000" online_world
         "[(''USD'', 247 / 100), (''EUR'', 1234 / 1000), (''GBP'', 247 / 100)]"]
  by (simp add: example_app_def eval_defs)

section \<open>Currency tokens\<close>

text \<open>
  Claim C10. With the configuration read and the converter built, a token that is no code
  of the directory and that the symbol search does not find is answered with None when it
  is the output currency, and with ValueError when it is the input currency. So the App
  built for a request with such an output token is the App built for the same request
  without output currency, whose \<open>out_currs\<close> is None (\<open>get_conversion\<close> then takes
  all the targets), whereas \<open>main\<close> answers such an input token with code 1.
\<close>

theorem invalid_currency_token:
  assumes "config_json w = Some conf"
      and "set_converter conf override_converter w = (Inr conv, w1)"
      and "tok \<notin> fst ` set (currencies conv)"
      and "find (\<lambda>(code, values). str_in (symbol_pattern tok) (str_values w1 values))
             (currencies conv) = None"
  shows "check_currency conv w1 (Some tok) ''out'' = Inr None
    \<and> check_currency conv w1 (Some tok) ''in'' = Inl ValueError
    \<and> App (params\<lparr>out_currency := Some tok\<rparr>) override_converter False w
        = App (params\<lparr>out_currency := None\<rparr>) override_converter False w
    \<and> (\<forall>a wa. App (params\<lparr>out_currency := Some tok\<rparr>) override_converter False w = (Inr a, wa)
          \<longrightarrow> out_currs a = None \<and> out_currency (app_params a) = None)
    \<and> main (params\<lparr>in_currency := tok\<rparr>) override_converter False first_try w
        = (Return 1 (Message ''Given input currency is not a valid currency code or symbol.''), w1)"
proof -
  have o: "check_currency conv w1 (Some tok) ''out'' = Inr None"
    and i: "check_currency conv w1 (Some tok) ''in'' = Inl ValueError"
    using assms(3,4) by (simp_all add: check_currency_def)
  have n: "check_currency conv w1 None ''out'' = Inr None"
    by (simp add: check_currency_def)
  have a: "App (params\<lparr>out_currency := Some tok\<rparr>) override_converter False w
        = App (params\<lparr>out_currency := None\<rparr>) override_converter False w"
    using assms(1,2) o n by (simp add: App_def load_config_def split: sum.splits option.splits)
  have b: "\<forall>a wa. App (params\<lparr>out_currency := None\<rparr>) override_converter False w = (Inr a, wa)
          \<longrightarrow> out_currs a = None \<and> out_currency (app_params a) = None"
    using assms(1,2) n
    by (auto simp: App_def load_config_def split: sum.splits option.splits)
  have m: "main (params\<lparr>in_currency := tok\<rparr>) override_converter False first_try w
        = (Return 1 (Message ''Given input currency is not a valid currency code or symbol.''), w1)"
    using assms(1,2) i
    by (simp add: main.simps [of _ override_converter False first_try w] App_def load_config_def)
  from o i a b m show ?thesis by simp
qed

theorem invalid_currency_token_witness:
  "check_currency example_xe online_world (Some ''XXX'') ''out'' = Inr None
   \<and> check_currency example_xe online_world (Some ''XXX'') ''in'' = Inl ValueError
   \<and> fst (main \<lparr>amount = 100, in_currency = ''EUR'', out_currency = Some ''XXX''\<rparr> '''' False True
            online_world)
       = Return 0 (Conversion 100 ''EUR'' [(''USD'', 200), (''EUR'', 100), (''GBP'', 200)])
   \<and> fst (main \<lparr>amount = 100, in_currency = ''XXX'', out_currency = Some ''EUR''\<rparr> '''' False True
            online_world)
       = Return 1 (Message ''Given input currency is not a valid currency code or symbol.'')"
  using invalid_currency_token
     [where w = online_world and conf = example_config and override_converter = "''''"
        and conv = example_xe
        and ?w1.0 = "online_world\<lparr>tick := 2,
                      cache_currencies_json := Envelope 1000000 (Some example_currencies)\<rparr>"
        and tok = "''XXX''"
        and params = "\<lparr>amount = 100, in_currency = ''XXX'', out_currency = Some ''EUR''\<rparr>"
        and first_try = True]
  by (simp add: eval_defs)

section \<open>The retry of main\<close>

text \<open>
  What \<open>main\<close> does when \<open>run\<close> raises a ConversionError: on the second try it
  returns code 2; on the first try it calls itself once, with the same parameters and the
  other converter, and returns code 0 with the list returned by that call as payload, so
  that the code it returns is never 2.
\<close>

lemma main_second_try:
  "App params override_converter lc w = (Inr a, wa) \<Longrightarrow>
   run a wa = (Inl (ConversionError ty), wb) \<Longrightarrow>
   main params override_converter lc False w = (Return 2 (Message ''Conversion failed.''), wb)"
  by (simp add: main.simps [of params override_converter lc False w])

lemma main_first_try:
  assumes "App params override_converter lc w = (Inr a, wa)"
      and "run a wa = (Inl (ConversionError ty), wb)"
  shows "main params override_converter lc True w =
           (case main params (if ty = xe_error then ''oer'' else ''xe'') False False wb of
              (Return c p, wc) \<Rightarrow> (Return 0 (Nested c p), wc)
            | (Uncaught e, wc) \<Rightarrow> (Uncaught e, wc))"
proof -
  from assms(2) have "ty = xe_error \<or> ty = oer_error"
    using run_errors [of a wa ty] by simp
  with assms show ?thesis
    by (auto simp: main.simps [of params override_converter lc True w])
qed

lemma main_first_try_never_code_2:
  assumes "App params override_converter lc w = (Inr a, wa)"
      and "run a wa = (Inl (ConversionError ty), wb)"
  shows "fst (main params override_converter lc True w) \<noteq> Return 2 p"
  unfolding main_first_try [OF assms] by (auto split: prod.splits result.splits)

text \<open>
  Claim C1, on a world where both converters fail: the configured XE converter is tried
  once, then the OER converter once with the same request and no third call is made, as the
  claim says; but \<open>main\<close> returns code 0, with the list \<open>[2, 'Conversion failed.']\<close>
  of the second try as its payload, where the claim says it reports severity 2.
\<close>

theorem both_methods_failed_code_0:
  "main \<lparr>amount = 100, in_currency = ''EUR'', out_currency = Some ''GBP''\<rparr> '''' False True
     offline_world
   = (Return 0 (Nested 2 (Message ''Conversion failed.'')),
      offline_world\<lparr>tick := 4,
        calls := [(OER, \<lparr>amount = 100, in_currency = ''EUR'', out_currency = ''GBP''\<rparr>),
                  (XE, \<lparr>amount = 100, in_currency = ''EUR'', out_currency = ''GBP''\<rparr>)]\<rparr>)"
  by (simp add: eval_defs)

end
